theory Spec2Isabelle
  imports Complex_Main "HOL-Library.Sublist" "HOL-Library.Multiset"
begin

section \<open>Training Flow Simulator: time engine and fit engine\<close>

text \<open>
  A shallow embedding of \<^verbatim>\<open>src/engine/timeEngine.ts\<close> and \<^verbatim>\<open>src/engine/fitEngine.ts\<close>.

  A TypeScript \<^verbatim>\<open>number\<close> is modelled as a \<^typ>\<open>real\<close>: the arithmetic of the engines is
  read as exact arithmetic. The rounding of IEEE doubles, the infinities and NaN are outside
  this model. A quotient whose denominator is zero is an infinity or NaN in the program and
  \<open>0\<close> in HOL; the engines divide by \<open>persons_per_question\<close> and by \<open>window_minutes\<close>.
  A statement below about the value of such a quotient carries the hypothesis that the
  denominator is not zero, or hypotheses that imply it.
\<close>

subsection \<open>Data model (\<^verbatim>\<open>src/model/types.ts\<close>)\<close>

type_synonym number = real

datatype ExperienceLevel = novice | mixed | advanced

datatype BlockType =
    opening_questions
  | contract
  | lecture
  | pairs
  | groups
  | workbook
  | energizer
  | video_debrief
  | recap_module
  | recap_day
  | break_block

datatype RoomTemplate = horseshoe_tables | horseshoe_no_tables | lecture_20plus

record QuestionConfig =
  questions :: "string list"
  persons_per_question :: number
  questions_per_group :: number
  seconds_per_question_prompt :: number
  seconds_per_answer :: number
  expected_answers_per_question :: number

record TimeEstimate =
  base_minutes :: number
  experience_modifier_minutes :: number
  overhead_minutes :: number
  interaction_minutes :: number
  total_minutes :: number

subsection \<open>Time engine (\<^verbatim>\<open>src/engine/timeEngine.ts\<close>)\<close>

text \<open>The \<^verbatim>\<open>default\<close> branch of the switch is shared with \<^verbatim>\<open>'mixed'\<close>.\<close>

fun calculateExperienceModifier :: "number \<Rightarrow> ExperienceLevel \<Rightarrow> number" where
  "calculateExperienceModifier base novice = base * 0.2"
| "calculateExperienceModifier base advanced = base * - 0.2"
| "calculateExperienceModifier base mixed = 0"

text \<open>The switch on the method, written as one function; the last equation is \<^verbatim>\<open>default\<close>.\<close>

fun method_overhead :: "number \<Rightarrow> BlockType \<Rightarrow> number" where
  "method_overhead pc groups = 3 + 0.3 * pc"
| "method_overhead pc pairs = 2 + 0.15 * pc"
| "method_overhead pc workbook = 1 + 0.1 * pc"
| "method_overhead pc video_debrief = 2"
| "method_overhead pc lecture = 1"
| "method_overhead pc energizer = 1"
| "method_overhead pc _ = 0.5"

definition calculateOverhead :: "number \<Rightarrow> BlockType \<Rightarrow> RoomTemplate \<Rightarrow> number" where
  "calculateOverhead pc method room_template =
     (let overhead = method_overhead pc method
      in if room_template = lecture_20plus then overhead + 1 else overhead)"

text \<open>\<^verbatim>\<open>Math.ceil\<close> is \<^const>\<open>ceiling\<close>; the product is again a number.\<close>

definition getSuggestedQuestionCount :: "number \<Rightarrow> number \<Rightarrow> number \<Rightarrow> number" where
  "getSuggestedQuestionCount pc ppq qpg = of_int \<lceil>pc / ppq\<rceil> * qpg"

text \<open>An absent \<^verbatim>\<open>question_config\<close> (\<^verbatim>\<open>undefined\<close>) is \<^const>\<open>None\<close>.\<close>

definition calculateInteractionMinutes :: "QuestionConfig option \<Rightarrow> number \<Rightarrow> number" where
  "calculateInteractionMinutes qcfg pc =
     (case qcfg of
        None \<Rightarrow> 0
      | Some qc \<Rightarrow>
          (let autoCount = getSuggestedQuestionCount pc (persons_per_question qc)
                             (questions_per_group qc);
               questionsCount = max autoCount (of_nat (length (questions qc)));
               totalSeconds = questionsCount *
                 (seconds_per_question_prompt qc +
                  expected_answers_per_question qc * seconds_per_answer qc)
           in totalSeconds / 60))"

definition estimateBlockTime ::
  "number \<Rightarrow> ExperienceLevel \<Rightarrow> number \<Rightarrow> BlockType \<Rightarrow> RoomTemplate \<Rightarrow>
   QuestionConfig option \<Rightarrow> TimeEstimate" where
  "estimateBlockTime base level pc method room_template qcfg =
     (let em = calculateExperienceModifier base level;
          ov = calculateOverhead pc method room_template;
          im = calculateInteractionMinutes qcfg pc;
          total = base + em + ov + im
      in \<lparr>base_minutes = base, experience_modifier_minutes = em, overhead_minutes = ov,
          interaction_minutes = im, total_minutes = total\<rparr>)"

text \<open>
  \<^verbatim>\<open>Math.round\<close> rounds to the nearest integer, a tie going up: \<open>floor(x + 1/2)\<close>.
\<close>

definition Math_round :: "number \<Rightarrow> int" where
  "Math_round x = \<lfloor>x + 1 / 2\<rfloor>"

text \<open>
  The remainder operator \<^verbatim>\<open>%\<close> of the language truncates: the result has the sign of the
  dividend. It is used below on integers only.
\<close>

definition js_rem :: "int \<Rightarrow> int \<Rightarrow> int" where
  "js_rem a b = sgn a * (\<bar>a\<bar> mod \<bar>b\<bar>)"

text \<open>\<^verbatim>\<open>String(n)\<close> of an integer: its decimal digits, with a minus sign when negative.\<close>

definition digit_char :: "nat \<Rightarrow> char" where
  "digit_char d = ''0123456789'' ! d"

fun digits_of :: "nat \<Rightarrow> string" where
  "digits_of n = (if n < 10 then [digit_char n] else digits_of (n div 10) @ [digit_char (n mod 10)])"

declare digits_of.simps [simp del]

definition String_int :: "int \<Rightarrow> string" where
  "String_int i = (if i < 0 then CHR ''-'' # digits_of (nat (- i)) else digits_of (nat i))"

text \<open>\<^verbatim>\<open>s.padStart(2, '0')\<close>.\<close>

definition padStart2 :: "string \<Rightarrow> string" where
  "padStart2 s = replicate (2 - length s) CHR ''0'' @ s"

text \<open>\<^verbatim>\<open>s.split(c)\<close>: the segments between the occurrences of \<open>c\<close>, never an empty list.\<close>

fun split_on :: "char \<Rightarrow> string \<Rightarrow> string list" where
  "split_on c [] = [[]]"
| "split_on c (x # xs) =
     (if x = c then [] # split_on c xs
      else (case split_on c xs of [] \<Rightarrow> [[x]] | y # ys \<Rightarrow> (x # y) # ys))"

text \<open>
  \<^verbatim>\<open>Number(s)\<close> on the strings the model covers: a string of decimal digits is its value,
  the empty string is 0. Every other string is \<^const>\<open>None\<close>: the program gets NaN or a
  number written in a syntax that is not modelled here (a sign, a fraction, an exponent,
  surrounding blanks, a hexadecimal literal).
\<close>

definition digit_value :: "char \<Rightarrow> nat option" where
  "digit_value c = (if c \<in> set ''0123456789'' then Some (of_char c - 48) else None)"

fun Number_digits :: "nat \<Rightarrow> string \<Rightarrow> nat option" where
  "Number_digits acc [] = Some acc"
| "Number_digits acc (c # cs) =
     (case digit_value c of None \<Rightarrow> None | Some d \<Rightarrow> Number_digits (10 * acc + d) cs)"

definition Number_of :: "string \<Rightarrow> nat option" where
  "Number_of s = Number_digits 0 s"

text \<open>
  The minutes that \<^verbatim>\<open>start_time\<close> adds. An absent or empty start time is falsy and adds
  nothing. Otherwise the first two segments of \<^verbatim>\<open>start_time.split(':').map(Number)\<close> are
  the hours and the minutes; a missing second segment is \<^verbatim>\<open>undefined\<close> and makes the sum NaN.
\<close>

definition start_offset :: "string option \<Rightarrow> int option" where
  "start_offset start_time =
     (case start_time of
        None \<Rightarrow> Some 0
      | Some s \<Rightarrow>
          if s = [] then Some 0
          else (case map Number_of (split_on CHR '':'' s) of
                  Some hours # Some mins # _ \<Rightarrow> Some (int hours * 60 + int mins)
                | _ \<Rightarrow> None))"

text \<open>
  The result is \<^const>\<open>None\<close> exactly when \<^const>\<open>start_offset\<close> is: the start time is
  outside the modelled syntax. \<^verbatim>\<open>Math.floor(totalMinutes / 60)\<close> of an integer is \<open>div\<close>.
\<close>

definition formatMinutesToTime :: "number \<Rightarrow> string option \<Rightarrow> string option" where
  "formatMinutesToTime minutes start_time =
     (case start_offset start_time of
        None \<Rightarrow> None
      | Some off \<Rightarrow>
          (let totalMinutes = Math_round minutes + off;
               h = js_rem (totalMinutes div 60) 24;
               m = js_rem totalMinutes 60
           in Some (padStart2 (String_int h) @ '':'' @ padStart2 (String_int m))))"

subsection \<open>Fit engine (\<^verbatim>\<open>src/engine/fitEngine.ts\<close>)\<close>

text \<open>
  Of an exercise, a block and a room the records keep the fields that the engines read
  (and the identifier and title of an exercise, which they copy into their results).
\<close>

record Exercise =
  ex_id :: string
  ex_title :: string
  ex_type :: BlockType
  time_range_min :: number
  time_range_max :: number
  participant_range_min :: number
  participant_range_max :: number
  requires_tables :: bool
  requires_flipchart_count :: number
  requires_screen :: bool

record AgendaBlock =
  block_type :: BlockType
  window_minutes :: number
  question_config :: "QuestionConfig option"

record RoomLayout =
  template :: RoomTemplate
  flipchart_count :: number
  has_screen :: bool
  has_tables :: bool

text \<open>
  A reason is built by a template literal. It is kept as the list of its parts: a literal
  piece of text, a number converted by \<^verbatim>\<open>String\<close>, or a number converted by
  \<^verbatim>\<open>toFixed(d)\<close>. \<open>render\<close> joins the parts, given the two conversions of the host.
\<close>

datatype piece = Lit string | Num number | Fixed nat number

fun render_piece :: "(number \<Rightarrow> string) \<Rightarrow> (nat \<Rightarrow> number \<Rightarrow> string) \<Rightarrow> piece \<Rightarrow> string" where
  "render_piece str fixed (Lit s) = s"
| "render_piece str fixed (Num x) = str x"
| "render_piece str fixed (Fixed d x) = fixed d x"

definition render :: "(number \<Rightarrow> string) \<Rightarrow> (nat \<Rightarrow> number \<Rightarrow> string) \<Rightarrow> piece list \<Rightarrow> string" where
  "render str fixed ps = concat (map (render_piece str fixed) ps)"

record FitResult =
  exercise_id :: string
  fits :: bool
  estimated_minutes :: number
  reason :: "piece list option"

definition checkExerciseFit ::
  "Exercise \<Rightarrow> AgendaBlock \<Rightarrow> RoomLayout \<Rightarrow> number \<Rightarrow> ExperienceLevel \<Rightarrow> FitResult" where
  "checkExerciseFit exercise block room pc level =
     (if pc < participant_range_min exercise \<or> pc > participant_range_max exercise then
        \<lparr>exercise_id = ex_id exercise, fits = False, estimated_minutes = 0,
         reason = Some [Lit ''Participant count '', Num pc, Lit '' outside range '',
                        Num (participant_range_min exercise), Lit ''-'',
                        Num (participant_range_max exercise)]\<rparr>
      else if requires_tables exercise \<and> \<not> has_tables room then
        \<lparr>exercise_id = ex_id exercise, fits = False, estimated_minutes = 0,
         reason = Some [Lit ''Exercise requires tables but room has none'']\<rparr>
      else if requires_flipchart_count exercise > flipchart_count room then
        \<lparr>exercise_id = ex_id exercise, fits = False, estimated_minutes = 0,
         reason = Some [Lit ''Exercise needs '', Num (requires_flipchart_count exercise),
                        Lit '' flipcharts, room has '', Num (flipchart_count room)]\<rparr>
      else if requires_screen exercise \<and> \<not> has_screen room then
        \<lparr>exercise_id = ex_id exercise, fits = False, estimated_minutes = 0,
         reason = Some [Lit ''Exercise requires a screen but room has none'']\<rparr>
      else
        (let estimate = estimateBlockTime (time_range_max exercise) level pc (ex_type exercise)
                          (template room) (question_config block)
         in if total_minutes estimate > window_minutes block then
              \<lparr>exercise_id = ex_id exercise, fits = False,
               estimated_minutes = total_minutes estimate,
               reason = Some [Lit ''Estimated '', Fixed 1 (total_minutes estimate),
                              Lit '' min exceeds '', Num (window_minutes block),
                              Lit '' min window'']\<rparr>
            else
              \<lparr>exercise_id = ex_id exercise, fits = True,
               estimated_minutes = total_minutes estimate, reason = None\<rparr>))"

definition scoreExercise :: "Exercise \<Rightarrow> AgendaBlock \<Rightarrow> number \<Rightarrow> number \<Rightarrow> number" where
  "scoreExercise exercise block est pc =
     (let timeRatio = est / window_minutes block;
          fitsTimeScore = (if timeRatio \<le> 1 then timeRatio else 0);
          range = participant_range_max exercise - participant_range_min exercise;
          midpoint = participant_range_min exercise + range / 2;
          deviation = \<bar>pc - midpoint\<bar>;
          participantScore = (if range > 0 then 1 - deviation / (range / 2) else 1);
          clampedParticipantScore = max 0 (min 1 participantScore);
          assetDemand = (if requires_tables exercise then 1 else 0)
                        + requires_flipchart_count exercise
                        + (if requires_screen exercise then 1 else 0);
          assetScore = max 0 (1 - assetDemand * 0.1);
          dynamicsScore = 1
      in fitsTimeScore * 0.4 + clampedParticipantScore * 0.3 + assetScore * 0.2
         + dynamicsScore * 0.1)"

definition generateReason :: "Exercise \<Rightarrow> number \<Rightarrow> AgendaBlock \<Rightarrow> piece list" where
  "generateReason exercise est block =
     (let timeUsage = Math_round (est / window_minutes block * 100)
      in [Lit (ex_title exercise), Lit '' fills '', Num (of_int timeUsage), Lit ''% of the '',
          Num (window_minutes block), Lit ''-min window for '',
          Num (participant_range_min exercise), Lit ''-'',
          Num (participant_range_max exercise), Lit '' participants.''])"

text \<open>
  An entry of the array \<^verbatim>\<open>scored\<close>. Each entry is a fresh object and
  \<^verbatim>\<open>Array.prototype.includes\<close> compares objects by identity; \<open>obj_id\<close> is that identity:
  the number of entries pushed before this one.
\<close>

record Scored =
  obj_id :: nat
  sc_exercise :: Exercise
  fitResult :: FitResult
  score :: number

text \<open>The loop over the candidates, with the array \<^verbatim>\<open>scored\<close> as accumulator.\<close>

fun score_loop ::
  "AgendaBlock \<Rightarrow> RoomLayout \<Rightarrow> number \<Rightarrow> ExperienceLevel \<Rightarrow> Exercise list \<Rightarrow>
   Scored list \<Rightarrow> Scored list" where
  "score_loop block room pc level [] scored = scored"
| "score_loop block room pc level (exercise # rest) scored =
     (let fr = checkExerciseFit exercise block room pc level
      in if \<not> fits fr then score_loop block room pc level rest scored
         else score_loop block room pc level rest
                (scored @ [\<lparr>obj_id = length scored, sc_exercise = exercise, fitResult = fr,
                            score = scoreExercise exercise block (estimated_minutes fr) pc\<rparr>]))"

text \<open>
  The loop \<^verbatim>\<open>while (rescueCandidates.length < 2 && remaining.length > 0)\<close>, which moves the
  head of \<^verbatim>\<open>remaining\<close> to the end of \<^verbatim>\<open>rescueCandidates\<close>.
\<close>

fun backfill :: "'a list \<Rightarrow> 'a list \<Rightarrow> 'a list" where
  "backfill rescueCandidates [] = rescueCandidates"
| "backfill rescueCandidates (r # remaining) =
     (if length rescueCandidates < 2 then backfill (rescueCandidates @ [r]) remaining
      else rescueCandidates)"

record Recommendation =
  exercise :: Exercise
  rec_estimated_minutes :: number
  fit_score :: number
  rec_reason :: "piece list"

definition toRecommendation :: "AgendaBlock \<Rightarrow> Scored \<Rightarrow> Recommendation" where
  "toRecommendation block s =
     \<lparr>exercise = sc_exercise s,
      rec_estimated_minutes = estimated_minutes (fitResult s),
      fit_score = of_int (Math_round (score s * 100)) / 100,
      rec_reason = generateReason (sc_exercise s) (estimated_minutes (fitResult s)) block\<rparr>"

text \<open>
  The catalogue \<^verbatim>\<open>EXERCISE_LIBRARY\<close> (\<^verbatim>\<open>src/library/exercises.ts\<close>) is a parameter.
  \<^verbatim>\<open>scored.sort((a, b) => b.score - a.score)\<close> is a stable sort by descending score; the
  result of a stable sort is unique, and \<^const>\<open>sort_key\<close> on the negated score computes it.
\<close>

definition getRecommendations ::
  "Exercise list \<Rightarrow> AgendaBlock \<Rightarrow> RoomLayout \<Rightarrow> number \<Rightarrow> ExperienceLevel \<Rightarrow>
   Recommendation list" where
  "getRecommendations library block room pc level =
     (let candidates = filter (\<lambda>ex. ex_type ex = block_type block) library;
          scored = score_loop block room pc level candidates [];
          scored = sort_key (\<lambda>s. - score s) scored;
          mainPicks = take 3 scored;
          rescueThreshold = window_minutes block * 0.7;
          rescueCandidates =
            take 2 (filter (\<lambda>s. s \<notin> set mainPicks
                                \<and> time_range_max (sc_exercise s) < rescueThreshold) scored);
          remaining = filter (\<lambda>s. s \<notin> set mainPicks \<and> s \<notin> set rescueCandidates) scored;
          rescueCandidates = backfill rescueCandidates remaining;
          allPicks = mainPicks @ rescueCandidates
      in map (toRecommendation block) allPicks)"

subsection \<open>The objects of the test factories (\<^verbatim>\<open>src/engine/fitEngine.test.ts\<close>)\<close>

definition createExercise :: Exercise where
  "createExercise =
     \<lparr>ex_id = ''ex-1'', ex_title = ''Test Exercise'', ex_type = groups,
      time_range_min = 15, time_range_max = 25,
      participant_range_min = 6, participant_range_max = 20,
      requires_tables = False, requires_flipchart_count = 0, requires_screen = False\<rparr>"

definition createBlock :: AgendaBlock where
  "createBlock = \<lparr>block_type = groups, window_minutes = 45, question_config = None\<rparr>"

definition createRoom :: RoomLayout where
  "createRoom =
     \<lparr>template = horseshoe_tables, flipchart_count = 2, has_screen = True, has_tables = True\<rparr>"

text \<open>
  A small catalogue for a block of groups with a window of 45 minutes: for 12 participants
  of mixed experience the projected total is \<open>time_range_max + 6.6\<close>, so \<open>h\<close> does not fit,
  and \<open>e\<close> has another type.
\<close>

definition exampleLibrary :: "Exercise list" where
  "exampleLibrary =
     [createExercise\<lparr>ex_id := ''a'', time_range_max := 25\<rparr>,
      createExercise\<lparr>ex_id := ''b'', time_range_max := 32\<rparr>,
      createExercise\<lparr>ex_id := ''c'', time_range_max := 36\<rparr>,
      createExercise\<lparr>ex_id := ''d'', time_range_max := 34\<rparr>,
      createExercise\<lparr>ex_id := ''e'', ex_type := lecture\<rparr>,
      createExercise\<lparr>ex_id := ''f'', time_range_max := 33\<rparr>,
      createExercise\<lparr>ex_id := ''g'', time_range_max := 35\<rparr>,
      createExercise\<lparr>ex_id := ''h'', time_range_max := 40\<rparr>]"

text \<open>The question configuration of the tests of the time engine.\<close>

definition createQuestionConfig :: QuestionConfig where
  "createQuestionConfig =
     \<lparr>questions = [''Q1'', ''Q2'', ''Q3''], persons_per_question = 5, questions_per_group = 2,
      seconds_per_question_prompt = 15, seconds_per_answer = 30,
      expected_answers_per_question = 3\<rparr>"

subsection \<open>Definitions that follow the specification\<close>

text \<open>A field of a 24-hour clock string: two decimal digits.\<close>

definition two_digits :: "nat \<Rightarrow> string" where
  "two_digits n = [digit_char (n div 10), digit_char (n mod 10)]"

text \<open>
  The three scores of a candidate in the words of the specification, and their weighted
  sum with the constant dynamics score 1.
\<close>

definition spec_time_fit :: "number \<Rightarrow> number \<Rightarrow> number" where
  "spec_time_fit est window = (if est / window \<le> 1 then est / window else 0)"

definition spec_participant_match :: "Exercise \<Rightarrow> number \<Rightarrow> number" where
  "spec_participant_match ex pc =
     (let range = participant_range_max ex - participant_range_min ex;
          midpoint = participant_range_min ex + range / 2;
          deviation = \<bar>pc - midpoint\<bar>
      in if range = 0 then 1 else max 0 (min 1 (1 - deviation / (range / 2))))"

definition spec_asset_match :: "Exercise \<Rightarrow> number" where
  "spec_asset_match ex =
     max 0 (1 - 0.1 * ((if requires_tables ex then 1 else 0) + requires_flipchart_count ex
                       + (if requires_screen ex then 1 else 0)))"

definition spec_score :: "Exercise \<Rightarrow> AgendaBlock \<Rightarrow> number \<Rightarrow> number \<Rightarrow> number" where
  "spec_score ex block est pc =
     0.4 * spec_time_fit est (window_minutes block) + 0.3 * spec_participant_match ex pc
     + 0.2 * spec_asset_match ex + 0.1 * 1"

text \<open>
  The surviving candidates are the exercises of the catalogue that have the type of the
  block and pass the fit check; the score of a candidate is that of its projected estimate.
  The candidates are ranked by descending score. The rescue picks are taken from the
  candidates that are not main picks: those below the threshold first, the others after
  them, each group in ranking order, two at most.
\<close>

definition candidate_score ::
  "AgendaBlock \<Rightarrow> RoomLayout \<Rightarrow> number \<Rightarrow> ExperienceLevel \<Rightarrow> Exercise \<Rightarrow> number" where
  "candidate_score block room pc level ex =
     scoreExercise ex block (estimated_minutes (checkExerciseFit ex block room pc level)) pc"

definition surviving_candidates ::
  "Exercise list \<Rightarrow> AgendaBlock \<Rightarrow> RoomLayout \<Rightarrow> number \<Rightarrow> ExperienceLevel \<Rightarrow> Exercise list" where
  "surviving_candidates library block room pc level =
     filter (\<lambda>ex. fits (checkExerciseFit ex block room pc level))
       (filter (\<lambda>ex. ex_type ex = block_type block) library)"

definition ranked_candidates ::
  "Exercise list \<Rightarrow> AgendaBlock \<Rightarrow> RoomLayout \<Rightarrow> number \<Rightarrow> ExperienceLevel \<Rightarrow> Exercise list" where
  "ranked_candidates library block room pc level =
     sort_key (\<lambda>ex. - candidate_score block room pc level ex)
       (surviving_candidates library block room pc level)"

definition rescue_picks :: "number \<Rightarrow> Exercise list \<Rightarrow> Exercise list" where
  "rescue_picks threshold rest =
     take 2 (filter (\<lambda>ex. time_range_max ex < threshold) rest
             @ filter (\<lambda>ex. \<not> time_range_max ex < threshold) rest)"

definition recommend ::
  "AgendaBlock \<Rightarrow> RoomLayout \<Rightarrow> number \<Rightarrow> ExperienceLevel \<Rightarrow> Exercise \<Rightarrow> Recommendation" where
  "recommend block room pc level ex =
     \<lparr>exercise = ex,
      rec_estimated_minutes = estimated_minutes (checkExerciseFit ex block room pc level),
      fit_score = of_int (Math_round (candidate_score block room pc level ex * 100)) / 100,
      rec_reason =
        generateReason ex (estimated_minutes (checkExerciseFit ex block room pc level)) block\<rparr>"

text \<open>
  The invariant of the scoring loop: an entry holds the fit result and the score of its
  exercise.
\<close>

definition good_entry ::
  "AgendaBlock \<Rightarrow> RoomLayout \<Rightarrow> number \<Rightarrow> ExperienceLevel \<Rightarrow> Scored \<Rightarrow> bool" where
  "good_entry block room pc level s =
     (fitResult s = checkExerciseFit (sc_exercise s) block room pc level
      \<and> score s = candidate_score block room pc level (sc_exercise s))"

section \<open>Properties of the time engine\<close>

text \<open>
  C1. For every input, the estimate returned by \<open>estimateBlockTime\<close> has a total that is
  the sum of its four components: base, experience modifier, overhead and interaction.
\<close>

theorem estimateBlockTime_total_is_sum:
  "total_minutes (estimateBlockTime base level pc method room_template qcfg) =
     base_minutes (estimateBlockTime base level pc method room_template qcfg) +
     experience_modifier_minutes (estimateBlockTime base level pc method room_template qcfg) +
     overhead_minutes (estimateBlockTime base level pc method room_template qcfg) +
     interaction_minutes (estimateBlockTime base level pc method room_template qcfg)
   \<and> base_minutes (estimateBlockTime base level pc method room_template qcfg) = base
   \<and> experience_modifier_minutes (estimateBlockTime base level pc method room_template qcfg) =
       calculateExperienceModifier base level
   \<and> overhead_minutes (estimateBlockTime base level pc method room_template qcfg) =
       calculateOverhead pc method room_template
   \<and> interaction_minutes (estimateBlockTime base level pc method room_template qcfg) =
       calculateInteractionMinutes qcfg pc"
  by (simp add: estimateBlockTime_def Let_def)

text \<open>
  C5. The overhead by method is \<open>3 + 0.3 \<times> participants\<close> for groups, \<open>2 + 0.15 \<times> participants\<close>
  for pairs, \<open>1 + 0.1 \<times> participants\<close> for workbook, 2 for video and debrief, 1 for lecture,
  1 for energizer and 0.5 for each of the five other methods; the large lecture room adds one
  minute whatever the method, the two other rooms add nothing. In particular 12 participants
  in groups in a horseshoe with tables give 6.6, and a lecture for 12 in the large room gives 2.
\<close>

theorem calculateOverhead_table:
  "calculateOverhead pc groups horseshoe_tables = 3 + 0.3 * pc
   \<and> calculateOverhead pc pairs horseshoe_tables = 2 + 0.15 * pc
   \<and> calculateOverhead pc workbook horseshoe_tables = 1 + 0.1 * pc
   \<and> calculateOverhead pc video_debrief horseshoe_tables = 2
   \<and> calculateOverhead pc lecture horseshoe_tables = 1
   \<and> calculateOverhead pc energizer horseshoe_tables = 1
   \<and> calculateOverhead pc opening_questions horseshoe_tables = 0.5
   \<and> calculateOverhead pc contract horseshoe_tables = 0.5
   \<and> calculateOverhead pc recap_module horseshoe_tables = 0.5
   \<and> calculateOverhead pc recap_day horseshoe_tables = 0.5
   \<and> calculateOverhead pc break_block horseshoe_tables = 0.5
   \<and> calculateOverhead pc method horseshoe_no_tables = calculateOverhead pc method horseshoe_tables
   \<and> calculateOverhead pc method lecture_20plus = calculateOverhead pc method horseshoe_tables + 1
   \<and> calculateOverhead 12 groups horseshoe_tables = 6.6
   \<and> calculateOverhead 12 lecture lecture_20plus = 2"
  by (simp add: calculateOverhead_def)

text \<open>
  C6. The experience modifier is \<open>base \<times> 0.20\<close> for novices, 0 for a mixed group and
  \<open>base \<times> (\<minus>0.20)\<close> for an advanced group, so 20, 0 and \<open>\<minus>20\<close> at a base of 100 minutes;
  it is linear in the base: it commutes with scaling and with addition of bases.
\<close>

theorem calculateExperienceModifier_levels:
  "calculateExperienceModifier base novice = base * 0.20
   \<and> calculateExperienceModifier base mixed = 0
   \<and> calculateExperienceModifier base advanced = base * (- 0.20)
   \<and> calculateExperienceModifier 100 novice = 20
   \<and> calculateExperienceModifier 100 mixed = 0
   \<and> calculateExperienceModifier 100 advanced = - 20
   \<and> calculateExperienceModifier (k * base) level = k * calculateExperienceModifier base level
   \<and> calculateExperienceModifier (base + base') level =
       calculateExperienceModifier base level + calculateExperienceModifier base' level"
  by (cases level) (simp_all add: algebra_simps)

text \<open>
  C7. Without a question configuration the interaction time is 0. With one (whose
  \<open>persons_per_question\<close> is not zero) it is
  \<open>questions_count \<times> (prompt_seconds + answers_per_question \<times> seconds_per_answer) / 60\<close>, where
  \<open>questions_count\<close> is the larger of \<open>ceil(participants / persons_per_question) \<times>
  questions_per_group\<close> and the number of questions entered by hand. Three manual questions,
  5 persons per question, 2 questions per group, a prompt of 15 seconds, 3 expected
  answers of 30 seconds and 12 participants give exactly 10.5 minutes.
\<close>

theorem calculateInteractionMinutes_formula:
  "calculateInteractionMinutes None pc = 0
   \<and> (persons_per_question qc \<noteq> 0 \<longrightarrow>
        calculateInteractionMinutes (Some qc) pc =
          max (of_int \<lceil>pc / persons_per_question qc\<rceil> * questions_per_group qc)
              (of_nat (length (questions qc)))
          * (seconds_per_question_prompt qc
             + expected_answers_per_question qc * seconds_per_answer qc) / 60)
   \<and> calculateInteractionMinutes
         (Some \<lparr>questions = [''Q1'', ''Q2'', ''Q3''], persons_per_question = 5,
                questions_per_group = 2, seconds_per_question_prompt = 15,
                seconds_per_answer = 30, expected_answers_per_question = 3\<rparr>) 12 = 10.5"
  by (simp add: calculateInteractionMinutes_def getSuggestedQuestionCount_def Let_def)

theorem calculateInteractionMinutes_formula_witness:
  "persons_per_question
     \<lparr>questions = [''Q1''], persons_per_question = 4, questions_per_group = 1,
      seconds_per_question_prompt = 10, seconds_per_answer = 20,
      expected_answers_per_question = 2\<rparr> \<noteq> 0
   \<and> calculateInteractionMinutes
       (Some \<lparr>questions = [''Q1''], persons_per_question = 4, questions_per_group = 1,
              seconds_per_question_prompt = 10, seconds_per_answer = 20,
              expected_answers_per_question = 2\<rparr>) 8 = 5 / 3"
  using calculateInteractionMinutes_formula
    [of 8 "\<lparr>questions = [''Q1''], persons_per_question = 4, questions_per_group = 1,
      seconds_per_question_prompt = 10, seconds_per_answer = 20,
      expected_answers_per_question = 2\<rparr>"]
  by simp

section \<open>Properties of the clock formatting\<close>

lemma lt10_cases:
  "(d::nat) < 10 \<Longrightarrow> d = 0 \<or> d = 1 \<or> d = 2 \<or> d = 3 \<or> d = 4 \<or> d = 5 \<or> d = 6 \<or> d = 7 \<or> d = 8 \<or> d = 9"
  by arith

lemma digit_value_digit_char: "d < 10 \<Longrightarrow> digit_value (digit_char d) = Some d"
  using lt10_cases [of d] by (auto simp add: digit_value_def digit_char_def)

lemma digit_char_not_colon: "d < 10 \<Longrightarrow> digit_char d \<noteq> CHR '':''"
  using lt10_cases [of d] by (auto simp add: digit_char_def)

lemma Number_of_two_digits: "n < 100 \<Longrightarrow> Number_of (two_digits n) = Some n"
proof -
  assume "n < 100"
  then have "n div 10 < 10" and "n mod 10 < 10" by simp_all
  then show ?thesis
    by (simp add: Number_of_def two_digits_def digit_value_digit_char)
qed

lemma split_on_clock:
  assumes "h < 100" and "m < 100"
  shows "split_on CHR '':'' (two_digits h @ CHR '':'' # two_digits m) = [two_digits h, two_digits m]"
proof -
  from assms have "h div 10 < 10" "h mod 10 < 10" "m div 10 < 10" "m mod 10 < 10"
    by simp_all
  then show ?thesis
    by (simp add: two_digits_def digit_char_not_colon)
qed

lemma padStart2_String_int: "n < 100 \<Longrightarrow> padStart2 (String_int (int n)) = two_digits n"
proof (cases "n < 10")
  case True
  then show ?thesis
    by (simp add: padStart2_def String_int_def digits_of.simps two_digits_def digit_char_def)
next
  case False
  assume "n < 100"
  with False have "n div 10 < 10" by simp
  with False show ?thesis
    by (simp add: padStart2_def String_int_def digits_of.simps [of n]
        digits_of.simps [of "n div 10"] two_digits_def)
qed

lemma js_rem_nonneg: "0 \<le> a \<Longrightarrow> 0 < b \<Longrightarrow> js_rem a b = a mod b"
  by (cases "a = 0") (simp_all add: js_rem_def)

lemma format_total:
  assumes "0 \<le> t"
  shows "padStart2 (String_int (js_rem (t div 60) 24)) @ '':'' @ padStart2 (String_int (js_rem t 60))
         = two_digits ((nat t div 60) mod 24) @ '':'' @ two_digits (nat t mod 60)"
proof -
  from assms have d: "0 \<le> t div 60" by (simp add: pos_imp_zdiv_nonneg_iff)
  have h: "js_rem (t div 60) 24 = int ((nat t div 60) mod 24)"
    using assms d by (simp add: js_rem_nonneg nat_div_distrib nat_mod_distrib zmod_int zdiv_int)
  have m: "js_rem t 60 = int (nat t mod 60)"
    using assms by (simp add: js_rem_nonneg zmod_int)
  have "(nat t div 60) mod 24 < 100" and "nat t mod 60 < 100"
    by (simp_all add: less_trans [OF mod_less_divisor])
  then show ?thesis
    by (simp only: h m padStart2_String_int)
qed

lemma Math_round_near: "\<bar>of_int (Math_round x) - x\<bar> \<le> 1 / 2"
  unfolding Math_round_def by linarith

lemma Math_round_nonneg: "0 \<le> x \<Longrightarrow> 0 \<le> Math_round x"
  unfolding Math_round_def by simp

text \<open>
  C9. For a minutes offset that is not negative, \<open>formatMinutesToTime\<close> rounds the offset to
  the nearest integer, adds the start time when one is given as \<open>HH:MM\<close>, and renders
  the sum as a 24-hour clock string \<open>HH:MM\<close>: the hours are taken modulo 24, the minutes
  modulo 60, each written with two digits. In particular 90 minutes after 09:00 is 10:30,
  120 minutes after 23:00 is 01:00, and 0 minutes without a start time is 00:00.
\<close>

theorem formatMinutesToTime_clock:
  "(0 \<le> minutes \<and> hh < 100 \<and> mm < 100 \<longrightarrow>
      formatMinutesToTime minutes None =
        Some (two_digits ((nat (Math_round minutes) div 60) mod 24) @ '':'' @
              two_digits (nat (Math_round minutes) mod 60))
      \<and> formatMinutesToTime minutes (Some (two_digits hh @ '':'' @ two_digits mm)) =
        Some (two_digits (((nat (Math_round minutes) + (hh * 60 + mm)) div 60) mod 24) @ '':'' @
              two_digits ((nat (Math_round minutes) + (hh * 60 + mm)) mod 60))
      \<and> \<bar>of_int (Math_round minutes) - minutes\<bar> \<le> 1 / 2)
   \<and> formatMinutesToTime 90 (Some ''09:00'') = Some ''10:30''
   \<and> formatMinutesToTime 120 (Some ''23:00'') = Some ''01:00''
   \<and> formatMinutesToTime 0 None = Some ''00:00''"
proof -
  have gen: "formatMinutesToTime minutes None =
        Some (two_digits ((nat (Math_round minutes) div 60) mod 24) @ '':'' @
              two_digits (nat (Math_round minutes) mod 60))
      \<and> formatMinutesToTime minutes (Some (two_digits hh @ '':'' @ two_digits mm)) =
        Some (two_digits (((nat (Math_round minutes) + (hh * 60 + mm)) div 60) mod 24) @ '':'' @
              two_digits ((nat (Math_round minutes) + (hh * 60 + mm)) mod 60))"
    if "0 \<le> minutes" "hh < 100" "mm < 100" for minutes hh mm
  proof -
    from that have r: "0 \<le> Math_round minutes" by (simp add: Math_round_nonneg)
    have off: "start_offset (Some (two_digits hh @ '':'' @ two_digits mm)) =
                 Some (int hh * 60 + int mm)"
      using that by (simp add: start_offset_def split_on_clock Number_of_two_digits)
    have t: "0 \<le> Math_round minutes + (int hh * 60 + int mm)" using r by simp
    have n: "nat (Math_round minutes + (int hh * 60 + int mm)) =
               nat (Math_round minutes) + (hh * 60 + mm)"
      using r by (simp add: nat_add_distrib nat_mult_distrib)
    show ?thesis
      using format_total [OF r] format_total [OF t] off
      by (simp add: formatMinutesToTime_def start_offset_def Let_def n)
  qed
  have e1: "formatMinutesToTime 90 (Some ''09:00'') = Some ''10:30''"
    using gen [of 90 9 0] by (simp add: two_digits_def digit_char_def Math_round_def)
  have e2: "formatMinutesToTime 120 (Some ''23:00'') = Some ''01:00''"
    using gen [of 120 23 0] by (simp add: two_digits_def digit_char_def Math_round_def)
  have e3: "formatMinutesToTime 0 None = Some ''00:00''"
    using gen [of 0 0 0] by (simp add: two_digits_def digit_char_def Math_round_def)
  show ?thesis using gen [of minutes hh mm] Math_round_near [of minutes] e1 e2 e3 by blast
qed

theorem formatMinutesToTime_clock_witness:
  "(0::real) \<le> 65 \<and> (14::nat) < 100 \<and> (30::nat) < 100
   \<and> formatMinutesToTime 65 None = Some ''01:05''
   \<and> formatMinutesToTime 65 (Some ''14:30'') = Some ''15:35''"
  using formatMinutesToTime_clock [of 65 14 30]
  by (simp add: two_digits_def digit_char_def Math_round_def)

text \<open>
  The hypothesis on the offset is needed: the remainder keeps the sign of a negative total.
\<close>

lemma formatMinutesToTime_negative_example:
  "formatMinutesToTime (- 30) None = Some ''-1:-30''"
  by (simp add: formatMinutesToTime_def start_offset_def Math_round_def js_rem_def
      padStart2_def String_int_def digits_of.simps [of "Suc 0"] digits_of.simps [of 30]
      digits_of.simps [of 3] digit_char_def)

section \<open>Properties of the fit check\<close>

text \<open>A part of a reason is a substring of the rendered reason, whatever the conversions.\<close>

lemma sublist_render_Lit:
  "Lit s \<in> set ps \<Longrightarrow> sublist s (render str fixed ps)"
proof (induction ps)
  case Nil
  then show ?case by simp
next
  case (Cons p ps)
  show ?case
  proof (cases "p = Lit s")
    case True
    then show ?thesis by (simp add: render_def)
  next
    case False
    with Cons have "sublist s (render str fixed ps)" by simp
    then show ?thesis by (simp add: render_def sublist_append)
  qed
qed

lemma sublist_render_Num:
  "Num x \<in> set ps \<Longrightarrow> sublist (str x) (render str fixed ps)"
proof (induction ps)
  case Nil
  then show ?case by simp
next
  case (Cons p ps)
  show ?case
  proof (cases "p = Num x")
    case True
    then show ?thesis by (simp add: render_def)
  next
    case False
    with Cons have "sublist (str x) (render str fixed ps)" by simp
    then show ?thesis by (simp add: render_def sublist_append)
  qed
qed

lemma outside_range_in_Lit: "sublist ''outside range'' '' outside range ''"
proof -
  have "'' outside range '' = '' '' @ ''outside range'' @ '' ''" by simp
  then show ?thesis unfolding sublist_def by blast
qed

lemmas eval_defs = checkExerciseFit_def estimateBlockTime_def calculateOverhead_def
  calculateInteractionMinutes_def createExercise_def createBlock_def createRoom_def Let_def

text \<open>
  C3 (as amended). For an exercise that passes the participant range, tables, flipchart and
  screen filters, the projected estimate is that of the time engine for a base of
  \<open>time_range_max\<close>, the given participant count and experience level, the room's template,
  the block's question configuration and the TYPE OF THE EXERCISE as method. The check fails
  exactly when the projected total exceeds the block's window (equality passes), and on
  success \<open>estimated_minutes\<close> is the projected total. When the exercise has the type of the
  block, as every candidate of \<open>getRecommendations\<close> has, the method is the block's.
\<close>

theorem checkExerciseFit_time_window:
  "participant_range_min ex \<le> pc \<and> pc \<le> participant_range_max ex
   \<and> (requires_tables ex \<longrightarrow> has_tables room)
   \<and> requires_flipchart_count ex \<le> flipchart_count room
   \<and> (requires_screen ex \<longrightarrow> has_screen room)
   \<longrightarrow>
   (\<not> fits (checkExerciseFit ex blk room pc level)) =
     (total_minutes (estimateBlockTime (time_range_max ex) level pc (ex_type ex)
        (template room) (question_config blk)) > window_minutes blk)
   \<and> (fits (checkExerciseFit ex blk room pc level) \<longrightarrow>
        estimated_minutes (checkExerciseFit ex blk room pc level) =
          total_minutes (estimateBlockTime (time_range_max ex) level pc (ex_type ex)
            (template room) (question_config blk)))
   \<and> (ex_type ex = block_type blk \<longrightarrow>
        (\<not> fits (checkExerciseFit ex blk room pc level)) =
          (total_minutes (estimateBlockTime (time_range_max ex) level pc (block_type blk)
             (template room) (question_config blk)) > window_minutes blk))"
  by (auto simp add: checkExerciseFit_def Let_def)

theorem checkExerciseFit_time_window_witness:
  "fits (checkExerciseFit createExercise (createBlock\<lparr>window_minutes := 60\<rparr>) createRoom 12 mixed)
   \<and> estimated_minutes (checkExerciseFit createExercise (createBlock\<lparr>window_minutes := 60\<rparr>)
        createRoom 12 mixed) = 31.6
   \<and> \<not> fits (checkExerciseFit (createExercise\<lparr>time_range_max := 40\<rparr>)
        (createBlock\<lparr>window_minutes := 30\<rparr>) createRoom 12 novice)"
  using checkExerciseFit_time_window
    [of createExercise 12 createRoom "createBlock\<lparr>window_minutes := 60\<rparr>" mixed]
    checkExerciseFit_time_window
    [of "createExercise\<lparr>time_range_max := 40\<rparr>" 12 createRoom
        "createBlock\<lparr>window_minutes := 30\<rparr>" novice]
  by (simp add: estimateBlockTime_def calculateOverhead_def
  calculateInteractionMinutes_def createExercise_def createBlock_def createRoom_def Let_def)

text \<open>
  C3 as stated takes the block's type as method. A groups exercise of at most 25 minutes,
  checked for 12 participants of mixed experience against a lecture block of 30 minutes,
  passes the four filters; with the block's method the projected total is 26, within the
  window, yet the check fails: it projects 31.6 minutes with the method of the exercise.
\<close>

theorem checkExerciseFit_block_method_counterexample:
  "participant_range_min createExercise \<le> 12 \<and> 12 \<le> participant_range_max createExercise
   \<and> \<not> (requires_tables createExercise \<and> \<not> has_tables createRoom)
   \<and> \<not> (requires_flipchart_count createExercise > flipchart_count createRoom)
   \<and> \<not> (requires_screen createExercise \<and> \<not> has_screen createRoom)
   \<and> \<not> fits (checkExerciseFit createExercise
               (createBlock\<lparr>block_type := lecture, window_minutes := 30\<rparr>) createRoom 12 mixed)
   \<and> \<not> (total_minutes (estimateBlockTime (time_range_max createExercise) mixed 12
               (block_type (createBlock\<lparr>block_type := lecture, window_minutes := 30\<rparr>))
               (template createRoom)
               (question_config (createBlock\<lparr>block_type := lecture, window_minutes := 30\<rparr>)))
           > window_minutes (createBlock\<lparr>block_type := lecture, window_minutes := 30\<rparr>))"
  by (simp add: eval_defs)

text \<open>
  C8. The hard filters have inclusive boundaries. A participant count below the minimum or
  above the maximum of the exercise fails with the reason
  \<open>Participant count <count> outside range <min>-<max>\<close>, which contains the words
  \<open>outside range\<close> and both bounds; a count equal to a bound is in range. The check succeeds
  exactly when the count is within the bounds (inclusive), the tables and the screen are
  there if required, the required flipcharts are at most those of the room (equality
  passes) and the projected total is at most the window; a strictly greater flipchart
  requirement fails with its own reason.
\<close>

theorem checkExerciseFit_inclusive_filters:
  "(pc < participant_range_min ex \<or> pc > participant_range_max ex \<longrightarrow>
      \<not> fits (checkExerciseFit ex blk room pc level)
      \<and> reason (checkExerciseFit ex blk room pc level) =
          Some [Lit ''Participant count '', Num pc, Lit '' outside range '',
                Num (participant_range_min ex), Lit ''-'', Num (participant_range_max ex)]
      \<and> sublist ''outside range''
            (render str fixed
               [Lit ''Participant count '', Num pc, Lit '' outside range '',
                Num (participant_range_min ex), Lit ''-'', Num (participant_range_max ex)])
      \<and> sublist (str (participant_range_min ex))
            (render str fixed
               [Lit ''Participant count '', Num pc, Lit '' outside range '',
                Num (participant_range_min ex), Lit ''-'', Num (participant_range_max ex)])
      \<and> sublist (str (participant_range_max ex))
            (render str fixed
               [Lit ''Participant count '', Num pc, Lit '' outside range '',
                Num (participant_range_min ex), Lit ''-'', Num (participant_range_max ex)]))
   \<and> (fits (checkExerciseFit ex blk room pc level) =
        (participant_range_min ex \<le> pc \<and> pc \<le> participant_range_max ex
         \<and> (requires_tables ex \<longrightarrow> has_tables room)
         \<and> requires_flipchart_count ex \<le> flipchart_count room
         \<and> (requires_screen ex \<longrightarrow> has_screen room)
         \<and> total_minutes (estimateBlockTime (time_range_max ex) level pc (ex_type ex)
               (template room) (question_config blk)) \<le> window_minutes blk))
   \<and> (participant_range_min ex \<le> pc \<and> pc \<le> participant_range_max ex
        \<and> (requires_tables ex \<longrightarrow> has_tables room)
        \<and> requires_flipchart_count ex > flipchart_count room \<longrightarrow>
        reason (checkExerciseFit ex blk room pc level) =
          Some [Lit ''Exercise needs '', Num (requires_flipchart_count ex),
                Lit '' flipcharts, room has '', Num (flipchart_count room)])"
proof -
  let ?t = "[Lit ''Participant count '', Num pc, Lit '' outside range '',
             Num (participant_range_min ex), Lit ''-'', Num (participant_range_max ex)]"
  have "sublist '' outside range '' (render str fixed ?t)"
    by (rule sublist_render_Lit) simp
  with outside_range_in_Lit have a: "sublist ''outside range'' (render str fixed ?t)"
    by (rule sublist_order.order_trans)
  have b: "sublist (str (participant_range_min ex)) (render str fixed ?t)"
    by (rule sublist_render_Num) simp
  have c: "sublist (str (participant_range_max ex)) (render str fixed ?t)"
    by (rule sublist_render_Num) simp
  show ?thesis
    using a b c by (auto simp add: checkExerciseFit_def Let_def)
qed

theorem checkExerciseFit_inclusive_filters_witness:
  "\<not> fits (checkExerciseFit (createExercise\<lparr>participant_range_min := 10\<rparr>) createBlock
            createRoom 5 mixed)
   \<and> sublist ''outside range''
        (render (\<lambda>x. String_int \<lfloor>x\<rfloor>) (\<lambda>d x. String_int \<lfloor>x\<rfloor>)
           [Lit ''Participant count '', Num 5, Lit '' outside range '', Num 10, Lit ''-'', Num 20])
   \<and> fits (checkExerciseFit (createExercise\<lparr>participant_range_min := 10\<rparr>)
          (createBlock\<lparr>window_minutes := 60\<rparr>) createRoom 10 mixed)
   \<and> fits (checkExerciseFit (createExercise\<lparr>participant_range_min := 10\<rparr>)
          (createBlock\<lparr>window_minutes := 60\<rparr>) createRoom 20 mixed)
   \<and> fits (checkExerciseFit (createExercise\<lparr>requires_flipchart_count := 2\<rparr>)
          (createBlock\<lparr>window_minutes := 60\<rparr>) createRoom 12 mixed)
   \<and> reason (checkExerciseFit (createExercise\<lparr>requires_flipchart_count := 4\<rparr>)
          createBlock createRoom 12 mixed) =
       Some [Lit ''Exercise needs '', Num 4, Lit '' flipcharts, room has '', Num 2]"
  using
    checkExerciseFit_inclusive_filters
      [of 5 "createExercise\<lparr>participant_range_min := 10\<rparr>" createBlock createRoom mixed
          "\<lambda>x. String_int \<lfloor>x\<rfloor>" "\<lambda>d x. String_int \<lfloor>x\<rfloor>"]
    checkExerciseFit_inclusive_filters
      [of 10 "createExercise\<lparr>participant_range_min := 10\<rparr>"
          "createBlock\<lparr>window_minutes := 60\<rparr>" createRoom mixed]
    checkExerciseFit_inclusive_filters
      [of 20 "createExercise\<lparr>participant_range_min := 10\<rparr>"
          "createBlock\<lparr>window_minutes := 60\<rparr>" createRoom mixed]
    checkExerciseFit_inclusive_filters
      [of 12 "createExercise\<lparr>requires_flipchart_count := 2\<rparr>"
          "createBlock\<lparr>window_minutes := 60\<rparr>" createRoom mixed]
    checkExerciseFit_inclusive_filters
      [of 12 "createExercise\<lparr>requires_flipchart_count := 4\<rparr>" createBlock createRoom mixed]
  by (simp add: estimateBlockTime_def calculateOverhead_def
  calculateInteractionMinutes_def createExercise_def createBlock_def createRoom_def Let_def)

text \<open>
  C10. The result has a reason exactly when \<open>fits\<close> is false. When the failure comes from
  the participant range, the tables, the flipcharts or the screen, \<open>estimated_minutes\<close> is
  0; when it comes from the time window, \<open>estimated_minutes\<close> is the projected total.
\<close>

theorem checkExerciseFit_reason_and_estimate:
  "(reason (checkExerciseFit ex blk room pc level) \<noteq> None) =
     (\<not> fits (checkExerciseFit ex blk room pc level))
   \<and> (pc < participant_range_min ex \<or> pc > participant_range_max ex
        \<or> (requires_tables ex \<and> \<not> has_tables room)
        \<or> requires_flipchart_count ex > flipchart_count room
        \<or> (requires_screen ex \<and> \<not> has_screen room) \<longrightarrow>
        \<not> fits (checkExerciseFit ex blk room pc level)
        \<and> estimated_minutes (checkExerciseFit ex blk room pc level) = 0)
   \<and> (\<not> (pc < participant_range_min ex \<or> pc > participant_range_max ex
           \<or> (requires_tables ex \<and> \<not> has_tables room)
           \<or> requires_flipchart_count ex > flipchart_count room
           \<or> (requires_screen ex \<and> \<not> has_screen room))
        \<and> total_minutes (estimateBlockTime (time_range_max ex) level pc (ex_type ex)
              (template room) (question_config blk)) > window_minutes blk \<longrightarrow>
        \<not> fits (checkExerciseFit ex blk room pc level)
        \<and> estimated_minutes (checkExerciseFit ex blk room pc level) =
            total_minutes (estimateBlockTime (time_range_max ex) level pc (ex_type ex)
              (template room) (question_config blk)))"
  by (auto simp add: checkExerciseFit_def Let_def)

theorem checkExerciseFit_reason_and_estimate_witness:
  "estimated_minutes (checkExerciseFit (createExercise\<lparr>requires_screen := True\<rparr>) createBlock
      (createRoom\<lparr>has_screen := False\<rparr>) 12 mixed) = 0
   \<and> reason (checkExerciseFit (createExercise\<lparr>requires_screen := True\<rparr>) createBlock
      (createRoom\<lparr>has_screen := False\<rparr>) 12 mixed) \<noteq> None
   \<and> estimated_minutes (checkExerciseFit (createExercise\<lparr>time_range_max := 40\<rparr>)
        (createBlock\<lparr>window_minutes := 30\<rparr>) createRoom 12 novice) = 54.6
   \<and> reason (checkExerciseFit (createExercise\<lparr>time_range_max := 40\<rparr>)
        (createBlock\<lparr>window_minutes := 30\<rparr>) createRoom 12 novice) \<noteq> None"
  using
    checkExerciseFit_reason_and_estimate
      [of "createExercise\<lparr>requires_screen := True\<rparr>" createBlock
          "createRoom\<lparr>has_screen := False\<rparr>" 12 mixed]
    checkExerciseFit_reason_and_estimate
      [of "createExercise\<lparr>time_range_max := 40\<rparr>" "createBlock\<lparr>window_minutes := 30\<rparr>"
          createRoom 12 novice]
  by (simp add: estimateBlockTime_def calculateOverhead_def
  calculateInteractionMinutes_def createExercise_def createBlock_def createRoom_def Let_def)

section \<open>Properties of the recommendations\<close>

subsection \<open>The scoring loop\<close>

lemma score_loop_exercises:
  "map sc_exercise (score_loop blk room pc level cands acc) =
     map sc_exercise acc @ filter (\<lambda>ex. fits (checkExerciseFit ex blk room pc level)) cands"
  by (induction cands arbitrary: acc) (simp_all add: Let_def)

lemma score_loop_obj_ids:
  "map obj_id acc = [0..<length acc] \<Longrightarrow>
   map obj_id (score_loop blk room pc level cands acc) =
     [0..<length (score_loop blk room pc level cands acc)]"
  by (induction cands arbitrary: acc) (simp_all add: Let_def)

lemma score_loop_good:
  "\<forall>s\<in>set acc. good_entry blk room pc level s \<Longrightarrow>
   \<forall>s\<in>set (score_loop blk room pc level cands acc). good_entry blk room pc level s"
proof (induction cands arbitrary: acc)
  case Nil
  then show ?case by simp
next
  case (Cons ex cands)
  show ?case
  proof (cases "fits (checkExerciseFit ex blk room pc level)")
    case False
    with Cons show ?thesis by (simp add: Let_def)
  next
    case True
    let ?e = "\<lparr>obj_id = length acc, sc_exercise = ex,
               fitResult = checkExerciseFit ex blk room pc level,
               score = scoreExercise ex blk
                 (estimated_minutes (checkExerciseFit ex blk room pc level)) pc\<rparr>"
    have "good_entry blk room pc level ?e"
      by (simp add: good_entry_def candidate_score_def)
    with Cons.prems have "\<forall>s\<in>set (acc @ [?e]). good_entry blk room pc level s" by simp
    from Cons.IH [OF this] True show ?thesis by (simp add: Let_def)
  qed
qed

lemma score_loop_distinct:
  "distinct (score_loop blk room pc level cands [])"
proof -
  have "map obj_id (score_loop blk room pc level cands []) =
          [0..<length (score_loop blk room pc level cands [])]"
    by (rule score_loop_obj_ids) simp
  then have "distinct (map obj_id (score_loop blk room pc level cands []))"
    by simp
  then show ?thesis by (simp add: distinct_map)
qed

subsection \<open>Sorting entries and sorting their exercises\<close>

lemma insort_key_map_cong:
  "\<forall>y\<in>set (x # xs). f y = g (h y) \<Longrightarrow>
   map h (insort_key f x xs) = insort_key g (h x) (map h xs)"
  by (induction xs) simp_all

lemma sort_key_map_cong:
  "\<forall>y\<in>set xs. f y = g (h y) \<Longrightarrow> map h (sort_key f xs) = sort_key g (map h xs)"
proof (induction xs)
  case Nil
  then show ?case by simp
next
  case (Cons x xs)
  then have "\<forall>y\<in>set (x # sort_key f xs). f y = g (h y)" by simp
  then have "map h (insort_key f x (sort_key f xs)) = insort_key g (h x) (map h (sort_key f xs))"
    by (rule insort_key_map_cong)
  with Cons show ?case by simp
qed

lemma sorted_desc_sort_key:
  "sorted_wrt (\<lambda>a b. f a \<ge> f b) (sort_key (\<lambda>x. - f x) xs)" for f :: "'a \<Rightarrow> real"
proof -
  have "sorted (map (\<lambda>x. - f x) (sort_key (\<lambda>x. - f x) xs))"
    by (rule sorted_sort_key)
  then show ?thesis by (simp add: sorted_map)
qed

subsection \<open>Picking\<close>

lemma filter_notin_take:
  assumes "distinct xs"
  shows "filter (\<lambda>s. s \<notin> set (take n xs) \<and> P s) xs = filter P (drop n xs)"
proof -
  let ?Q = "\<lambda>s. s \<notin> set (take n xs) \<and> P s"
  have "distinct (take n xs @ drop n xs)" using assms by simp
  then have disj: "set (take n xs) \<inter> set (drop n xs) = {}" by (simp only: distinct_append)
  have "filter ?Q xs = filter ?Q (take n xs) @ filter ?Q (drop n xs)"
    by (metis append_take_drop_id filter_append)
  moreover have "filter ?Q (take n xs) = []"
    by (simp add: filter_empty_conv)
  moreover have "filter ?Q (drop n xs) = filter P (drop n xs)"
    using disj by (intro filter_cong) auto
  ultimately show ?thesis by (simp only: append_Nil)
qed

lemma backfill_take: "backfill rc rem = rc @ take (2 - length rc) rem"
proof (induction rem arbitrary: rc)
  case Nil
  then show ?case by simp
next
  case (Cons r rem)
  show ?case
  proof (cases "length rc < 2")
    case True
    then have "2 - length rc = Suc (2 - length (rc @ [r]))" by simp
    with True Cons show ?thesis by simp
  next
    case False
    then show ?thesis by simp
  qed
qed

lemma prefer_then_backfill:
  "take 2 (filter P ds)
     @ take (2 - length (take 2 (filter P ds)))
         (filter (\<lambda>s. s \<notin> set (take 2 (filter P ds))) ds)
   = take 2 (filter P ds @ filter (\<lambda>s. \<not> P s) ds)"
proof (cases "2 \<le> length (filter P ds)")
  case True
  then show ?thesis by simp
next
  case False
  then have t: "take 2 (filter P ds) = filter P ds" by simp
  have "filter (\<lambda>s. s \<notin> set (filter P ds)) ds = filter (\<lambda>s. \<not> P s) ds"
    by (intro filter_cong) auto
  with t show ?thesis by simp
qed

lemma picks_eq:
  assumes "distinct S"
  shows "take 3 S @
         backfill (take 2 (filter (\<lambda>s. s \<notin> set (take 3 S) \<and> P s) S))
           (filter (\<lambda>s. s \<notin> set (take 3 S)
                         \<and> s \<notin> set (take 2 (filter (\<lambda>s. s \<notin> set (take 3 S) \<and> P s) S))) S)
         = take 3 S @ take 2 (filter P (drop 3 S) @ filter (\<lambda>s. \<not> P s) (drop 3 S))"
proof -
  have a: "filter (\<lambda>s. s \<notin> set (take 3 S) \<and> Q s) S = filter Q (drop 3 S)" for Q
    by (rule filter_notin_take [OF assms])
  show ?thesis
    unfolding a backfill_take prefer_then_backfill ..
qed

lemma toRecommendation_good:
  "good_entry blk room pc level s \<Longrightarrow>
   toRecommendation blk s = recommend blk room pc level (sc_exercise s)"
  by (simp add: good_entry_def toRecommendation_def recommend_def)

lemma ranked_entries:
  fixes lib blk room pc level
  defines "S \<equiv> sort_key (\<lambda>s. - score s)
                 (score_loop blk room pc level
                    (filter (\<lambda>ex. ex_type ex = block_type blk) lib) [])"
  shows "distinct S"
    and "\<forall>s\<in>set S. good_entry blk room pc level s"
    and "map sc_exercise S = ranked_candidates lib blk room pc level"
proof -
  let ?sc = "score_loop blk room pc level (filter (\<lambda>ex. ex_type ex = block_type blk) lib) []"
  have g: "\<forall>s\<in>set ?sc. good_entry blk room pc level s"
    by (rule score_loop_good) simp
  show "distinct S" unfolding S_def by (simp add: score_loop_distinct)
  show "\<forall>s\<in>set S. good_entry blk room pc level s" unfolding S_def using g by simp
  have "\<forall>s\<in>set ?sc. - score s = - candidate_score blk room pc level (sc_exercise s)"
    using g by (simp add: good_entry_def)
  then have "map sc_exercise (sort_key (\<lambda>s. - score s) ?sc) =
             sort_key (\<lambda>ex. - candidate_score blk room pc level ex) (map sc_exercise ?sc)"
    by (rule sort_key_map_cong)
  then show "map sc_exercise S = ranked_candidates lib blk room pc level"
    unfolding S_def
    by (simp add: ranked_candidates_def surviving_candidates_def score_loop_exercises)
qed

lemma getRecommendations_picks_eq:
  "getRecommendations lib blk room pc level =
     map (recommend blk room pc level)
       (take 3 (ranked_candidates lib blk room pc level)
        @ rescue_picks (window_minutes blk * 0.7)
            (drop 3 (ranked_candidates lib blk room pc level)))"
proof -
  define S :: "Scored list" where "S = sort_key (\<lambda>s. - score s)
                 (score_loop blk room pc level
                    (filter (\<lambda>ex. ex_type ex = block_type blk) lib) [])"
  define P :: "Exercise \<Rightarrow> bool"
    where "P = (\<lambda>ex. time_range_max ex < window_minutes blk * 0.7)"
  define picks where
    "picks = take 3 S @ take 2 (filter (P \<circ> sc_exercise) (drop 3 S)
                                @ filter (\<lambda>s. \<not> (P \<circ> sc_exercise) s) (drop 3 S))"
  have d: "distinct S" and g: "\<forall>s\<in>set S. good_entry blk room pc level s"
    and r: "map sc_exercise S = ranked_candidates lib blk room pc level"
    unfolding S_def by (rule ranked_entries)+
  have "getRecommendations lib blk room pc level =
          map (toRecommendation blk)
            (take 3 S @
             backfill (take 2 (filter (\<lambda>s. s \<notin> set (take 3 S) \<and> (P \<circ> sc_exercise) s) S))
               (filter (\<lambda>s. s \<notin> set (take 3 S) \<and>
                   s \<notin> set (take 2 (filter (\<lambda>s. s \<notin> set (take 3 S) \<and> (P \<circ> sc_exercise) s) S))) S))"
    by (simp add: getRecommendations_def Let_def S_def P_def)
  also have "\<dots> = map (toRecommendation blk) picks"
    unfolding picks_def by (simp only: picks_eq [OF d])
  also have "\<dots> = map (recommend blk room pc level) (map sc_exercise picks)"
  proof -
    have "set picks \<subseteq> set S"
      unfolding picks_def
      by (auto dest!: in_set_takeD in_set_dropD)
    with g have "\<forall>s\<in>set picks. toRecommendation blk s = recommend blk room pc level (sc_exercise s)"
      by (auto simp add: toRecommendation_good)
    then show ?thesis by simp
  qed
  also have "map sc_exercise picks =
       take 3 (map sc_exercise S)
        @ rescue_picks (window_minutes blk * 0.7) (drop 3 (map sc_exercise S))"
    unfolding picks_def rescue_picks_def
    by (simp add: take_map drop_map filter_map P_def comp_def)
  finally show ?thesis by (simp only: r)
qed

lemma length_rescue_picks: "length (rescue_picks thr rest) \<le> 2"
  by (simp add: rescue_picks_def)

lemma in_recommendations:
  assumes "r \<in> set (getRecommendations lib blk room pc level)"
  obtains ex where "r = recommend blk room pc level ex" and "ex \<in> set lib"
    and "fits (checkExerciseFit ex blk room pc level)"
proof -
  let ?R = "ranked_candidates lib blk room pc level"
  from assms obtain ex where r: "r = recommend blk room pc level ex"
    and "ex \<in> set (take 3 ?R @ rescue_picks (window_minutes blk * 0.7) (drop 3 ?R))"
    unfolding getRecommendations_picks_eq by auto
  then have "ex \<in> set ?R"
    by (auto simp add: rescue_picks_def dest!: in_set_takeD in_set_dropD)
  then have "ex \<in> set lib" and "fits (checkExerciseFit ex blk room pc level)"
    by (simp_all add: ranked_candidates_def surviving_candidates_def)
  with r that show thesis by blast
qed

text \<open>
  C2. \<open>getRecommendations\<close> returns at most 5 items. They are the recommendations of the
  main picks followed by those of the rescue picks. The main picks are the first
  \<open>min(3, number of surviving candidates)\<close> of the surviving candidates ranked by score in
  descending order (so their rounded scores descend too). The rescue picks, two at most,
  are taken from the candidates after the first three: those whose \<open>time_range_max\<close> is
  below \<open>0.7 \<times> window_minutes\<close> come first, in ranking order, and when fewer than two of
  them exist the remaining candidates fill up, in ranking order.
\<close>

theorem getRecommendations_main_and_rescue:
  "length (getRecommendations lib blk room pc level) \<le> 5
   \<and> getRecommendations lib blk room pc level =
       map (recommend blk room pc level)
         (take 3 (ranked_candidates lib blk room pc level)
          @ rescue_picks (window_minutes blk * 0.7)
              (drop 3 (ranked_candidates lib blk room pc level)))
   \<and> length (take 3 (ranked_candidates lib blk room pc level)) =
       min 3 (length (surviving_candidates lib blk room pc level))
   \<and> mset (ranked_candidates lib blk room pc level) =
       mset (surviving_candidates lib blk room pc level)
   \<and> sorted_wrt (\<lambda>a b. candidate_score blk room pc level a \<ge> candidate_score blk room pc level b)
       (ranked_candidates lib blk room pc level)
   \<and> sorted_wrt (\<lambda>a b. fit_score a \<ge> fit_score b)
       (take 3 (getRecommendations lib blk room pc level))"
proof -
  let ?R = "ranked_candidates lib blk room pc level"
  have eq: "getRecommendations lib blk room pc level =
       map (recommend blk room pc level)
         (take 3 ?R @ rescue_picks (window_minutes blk * 0.7) (drop 3 ?R))"
    by (rule getRecommendations_picks_eq)
  have len: "length (getRecommendations lib blk room pc level) \<le> 5"
    using length_rescue_picks [of "window_minutes blk * 0.7" "drop 3 ?R"]
    by (simp add: eq)
  have l3: "length (take 3 ?R) = min 3 (length (surviving_candidates lib blk room pc level))"
    by (simp add: ranked_candidates_def)
  have ms: "mset ?R = mset (surviving_candidates lib blk room pc level)"
    by (simp add: ranked_candidates_def)
  have so: "sorted_wrt (\<lambda>a b. candidate_score blk room pc level a \<ge> candidate_score blk room pc level b) ?R"
    unfolding ranked_candidates_def by (rule sorted_desc_sort_key)
  have t3: "take 3 (getRecommendations lib blk room pc level) =
              map (recommend blk room pc level) (take 3 ?R)"
  proof (cases "3 \<le> length ?R")
    case True
    then show ?thesis by (simp add: eq take_map)
  next
    case False
    then have "drop 3 ?R = []" by simp
    then show ?thesis by (simp add: eq take_map rescue_picks_def)
  qed
  have mono: "fit_score (recommend blk room pc level a) \<ge> fit_score (recommend blk room pc level b)"
    if "candidate_score blk room pc level a \<ge> candidate_score blk room pc level b" for a b
    using that by (simp add: recommend_def Math_round_def divide_right_mono floor_mono)
  have "sorted_wrt (\<lambda>a b. fit_score (recommend blk room pc level a)
                        \<ge> fit_score (recommend blk room pc level b)) (take 3 ?R)"
    using sorted_wrt_take [OF so, of 3] mono
    by (rule sorted_wrt_mono_rel [rotated]) 
  then have fs: "sorted_wrt (\<lambda>a b. fit_score a \<ge> fit_score b)
                   (take 3 (getRecommendations lib blk room pc level))"
    by (simp add: t3 sorted_wrt_map)
  from len eq l3 ms so fs show ?thesis by blast
qed

text \<open>
  On the example catalogue the main picks are \<open>c\<close>, \<open>g\<close> and \<open>d\<close>. Of the rest only \<open>a\<close>
  is below the threshold of 31.5 minutes, so it is the first rescue pick although its score
  is the lowest; \<open>f\<close>, the best of the others, fills the second slot.
\<close>

lemma getRecommendations_backfill_example:
  "map (\<lambda>r. (ex_id (exercise r), fit_score r))
     (getRecommendations exampleLibrary createBlock createRoom 12 mixed) =
   [(''c'', 0.94), (''g'', 0.93), (''d'', 0.92), (''a'', 0.84), (''f'', 0.91)]"
  by (simp add: exampleLibrary_def getRecommendations_def toRecommendation_def
      generateReason_def scoreExercise_def Math_round_def eval_defs)

section \<open>Properties of the score\<close>

lemma participant_match_eq:
  fixes lo hi pc :: real
  shows "max 0 (min 1 (if hi - lo > 0 then 1 - \<bar>pc - (lo + (hi - lo) / 2)\<bar> / ((hi - lo) / 2) else 1))
         = (if hi - lo = 0 then 1 else max 0 (min 1 (1 - \<bar>pc - (lo + (hi - lo) / 2)\<bar> / ((hi - lo) / 2))))"
proof (cases "hi - lo < 0")
  case True
  then have "\<bar>pc - (lo + (hi - lo) / 2)\<bar> / ((hi - lo) / 2) \<le> 0"
    by (simp add: divide_nonneg_neg)
  with True show ?thesis by simp
next
  case False
  then show ?thesis by simp
qed

lemma scoreExercise_spec_score: "scoreExercise ex blk est pc = spec_score ex blk est pc"
proof -
  let ?lo = "participant_range_min ex" and ?hi = "participant_range_max ex"
  have t: "(if est / window_minutes blk \<le> 1 then est / window_minutes blk else 0) =
             spec_time_fit est (window_minutes blk)"
    by (simp add: spec_time_fit_def)
  have p: "max 0 (min 1 (if ?hi - ?lo > 0
                         then 1 - \<bar>pc - (?lo + (?hi - ?lo) / 2)\<bar> / ((?hi - ?lo) / 2) else 1)) =
             spec_participant_match ex pc"
    unfolding spec_participant_match_def Let_def by (rule participant_match_eq)
  have a: "max 0 (1 - ((if requires_tables ex then 1 else 0) + requires_flipchart_count ex
                       + (if requires_screen ex then 1 else 0)) * 0.1) = spec_asset_match ex"
    unfolding spec_asset_match_def by (simp only: mult.commute)
  show ?thesis
    unfolding scoreExercise_def Let_def t p a spec_score_def by (simp only: mult.commute)
qed

lemma calculateExperienceModifier_ge: "0 \<le> base \<Longrightarrow> 0 \<le> base + calculateExperienceModifier base level"
  by (cases level) simp_all

lemma method_overhead_pos: "0 \<le> pc \<Longrightarrow> 0 < method_overhead pc m"
  by (cases m) (simp_all add: add_pos_nonneg)

lemma calculateOverhead_pos: "0 \<le> pc \<Longrightarrow> 0 < calculateOverhead pc m rt"
  using method_overhead_pos [of pc m] by (simp add: calculateOverhead_def Let_def)

lemma calculateInteractionMinutes_nonneg:
  assumes "\<forall>qc. qcfg = Some qc \<longrightarrow>
             0 \<le> seconds_per_question_prompt qc \<and> 0 \<le> expected_answers_per_question qc
             \<and> 0 \<le> seconds_per_answer qc"
  shows "0 \<le> calculateInteractionMinutes qcfg pc"
proof (cases qcfg)
  case None
  then show ?thesis by (simp add: calculateInteractionMinutes_def)
next
  case (Some qc)
  with assms have a: "0 \<le> seconds_per_question_prompt qc + expected_answers_per_question qc * seconds_per_answer qc"
    by simp
  have "0 \<le> max (getSuggestedQuestionCount pc (persons_per_question qc) (questions_per_group qc))
              (real (length (questions qc)))"
    by simp
  with a Some show ?thesis
    by (simp add: calculateInteractionMinutes_def Let_def)
qed

lemma estimate_total_pos:
  assumes "0 \<le> base" and "0 \<le> pc"
    and "\<forall>qc. qcfg = Some qc \<longrightarrow>
             0 \<le> seconds_per_question_prompt qc \<and> 0 \<le> expected_answers_per_question qc
             \<and> 0 \<le> seconds_per_answer qc"
  shows "0 < total_minutes (estimateBlockTime base level pc m rt qcfg)"
  using calculateExperienceModifier_ge [OF assms(1), of level]
    calculateOverhead_pos [OF assms(2), of m rt]
    calculateInteractionMinutes_nonneg [OF assms(3), of pc]
  by (simp add: estimateBlockTime_def Let_def)

lemma spec_time_fit_bounds: "0 < est \<Longrightarrow> est \<le> w \<Longrightarrow> 0 \<le> spec_time_fit est w \<and> spec_time_fit est w \<le> 1"
  by (simp add: spec_time_fit_def)

lemma spec_participant_match_bounds:
  "0 \<le> spec_participant_match ex pc \<and> spec_participant_match ex pc \<le> 1"
  by (simp add: spec_participant_match_def Let_def)

lemma spec_asset_match_bounds:
  "0 \<le> requires_flipchart_count ex \<Longrightarrow> 0 \<le> spec_asset_match ex \<and> spec_asset_match ex \<le> 1"
  by (simp add: spec_asset_match_def)

lemma spec_score_bounds:
  assumes "0 < est" "est \<le> window_minutes blk" "0 \<le> requires_flipchart_count ex"
  shows "0 \<le> spec_score ex blk est pc \<and> spec_score ex blk est pc \<le> 1"
  using spec_time_fit_bounds [OF assms(1,2)] spec_participant_match_bounds [of ex pc]
    spec_asset_match_bounds [OF assms(3)]
  unfolding spec_score_def by linarith

lemma round_2dp_bounds:
  assumes "0 \<le> x" "x \<le> 1"
  shows "0 \<le> real_of_int (Math_round (x * 100)) / 100
         \<and> real_of_int (Math_round (x * 100)) / 100 \<le> 1
         \<and> \<bar>real_of_int (Math_round (x * 100)) / 100 - x\<bar> \<le> 1 / 200"
proof -
  have "0 \<le> Math_round (x * 100)" using assms(1) by (simp add: Math_round_def)
  moreover have "Math_round (x * 100) \<le> 100"
    using assms(2) unfolding Math_round_def by (simp add: floor_le_iff)
  moreover have "\<bar>real_of_int (Math_round (x * 100)) - x * 100\<bar> \<le> 1 / 2"
    unfolding Math_round_def by linarith
  ultimately show ?thesis by (simp add: field_simps) 
qed

lemma getRecommendations_example:
  "getRecommendations [createExercise]
     (createBlock\<lparr>window_minutes := 60, question_config := Some createQuestionConfig\<rparr>)
     createRoom 12 mixed =
   [\<lparr>exercise = createExercise, rec_estimated_minutes = 42.1, fit_score = 0.84,
     rec_reason = [Lit ''Test Exercise'', Lit '' fills '', Num 70, Lit ''% of the '',
        Num 60, Lit ''-min window for '', Num 6, Lit ''-'', Num 20,
        Lit '' participants.'']\<rparr>]"
  by (simp add: getRecommendations_def toRecommendation_def generateReason_def scoreExercise_def
      Math_round_def eval_defs createQuestionConfig_def getSuggestedQuestionCount_def)

text \<open>
  C4. Take non-negative inputs: a catalogue whose exercises have a non-negative
  \<open>time_range_max\<close> and flipchart requirement, a non-negative participant count, and a
  question configuration (if any) with non-negative timings and a \<open>persons_per_question\<close>
  that is not zero. Then every recommendation returned is that of a candidate that passed
  the fit check, its score is the weighted sum \<open>0.4 \<times> time fit + 0.3 \<times> participant match +
  0.2 \<times> asset match + 0.1 \<times> 1\<close> of the specification, its \<open>fit_score\<close> is that score rounded to
  two decimal places (within 1/200 of it), and the \<open>fit_score\<close> lies between 0 and 1.
\<close>

theorem getRecommendations_fit_score:
  assumes "r \<in> set (getRecommendations lib blk room pc level)"
    and "\<forall>ex\<in>set lib. 0 \<le> time_range_max ex \<and> 0 \<le> requires_flipchart_count ex"
    and "0 \<le> pc"
    and "\<forall>qc. question_config blk = Some qc \<longrightarrow>
           persons_per_question qc \<noteq> 0 \<and> 0 \<le> seconds_per_question_prompt qc
           \<and> 0 \<le> expected_answers_per_question qc \<and> 0 \<le> seconds_per_answer qc"
  shows "fits (checkExerciseFit (exercise r) blk room pc level)
    \<and> rec_estimated_minutes r = estimated_minutes (checkExerciseFit (exercise r) blk room pc level)
    \<and> scoreExercise (exercise r) blk (rec_estimated_minutes r) pc =
        0.4 * spec_time_fit (rec_estimated_minutes r) (window_minutes blk)
        + 0.3 * spec_participant_match (exercise r) pc
        + 0.2 * spec_asset_match (exercise r) + 0.1 * 1
    \<and> fit_score r =
        of_int (Math_round (scoreExercise (exercise r) blk (rec_estimated_minutes r) pc * 100)) / 100
    \<and> \<bar>fit_score r - scoreExercise (exercise r) blk (rec_estimated_minutes r) pc\<bar> \<le> 1 / 200
    \<and> 0 \<le> fit_score r \<and> fit_score r \<le> 1"
proof -
  from assms(1) obtain ex where r: "r = recommend blk room pc level ex" and lib: "ex \<in> set lib"
    and fit: "fits (checkExerciseFit ex blk room pc level)"
    by (rule in_recommendations)
  let ?est = "estimated_minutes (checkExerciseFit ex blk room pc level)"
  let ?total = "total_minutes (estimateBlockTime (time_range_max ex) level pc (ex_type ex)
                  (template room) (question_config blk))"
  from fit have est: "?est = ?total" and le: "?total \<le> window_minutes blk"
    by (auto simp add: checkExerciseFit_def Let_def split: if_splits)
  from lib assms(2) have wf: "0 \<le> time_range_max ex" "0 \<le> requires_flipchart_count ex"
    by simp_all
  from assms(4) have "\<forall>qc. question_config blk = Some qc \<longrightarrow>
      0 \<le> seconds_per_question_prompt qc \<and> 0 \<le> expected_answers_per_question qc
      \<and> 0 \<le> seconds_per_answer qc"
    by simp
  with wf(1) assms(3) have "0 < ?total" by (rule estimate_total_pos)
  with est le wf(2) have b: "0 \<le> spec_score ex blk ?est pc \<and> spec_score ex blk ?est pc \<le> 1"
    by (simp add: spec_score_bounds)
  have e: "exercise r = ex" "rec_estimated_minutes r = ?est"
    "fit_score r = of_int (Math_round (spec_score ex blk ?est pc * 100)) / 100"
    by (simp_all add: r recommend_def candidate_score_def scoreExercise_spec_score)
  have s: "scoreExercise ex blk ?est pc = spec_score ex blk ?est pc"
    by (rule scoreExercise_spec_score)
  from b have rb: "0 \<le> real_of_int (Math_round (spec_score ex blk ?est pc * 100)) / 100
         \<and> real_of_int (Math_round (spec_score ex blk ?est pc * 100)) / 100 \<le> 1
         \<and> \<bar>real_of_int (Math_round (spec_score ex blk ?est pc * 100)) / 100
             - spec_score ex blk ?est pc\<bar> \<le> 1 / 200"
    by (simp only: round_2dp_bounds)
  show ?thesis
    unfolding e s using fit rb by (simp add: spec_score_def)
qed

theorem getRecommendations_fit_score_witness:
  "\<lparr>exercise = createExercise, rec_estimated_minutes = 42.1, fit_score = 0.84,
     rec_reason = [Lit ''Test Exercise'', Lit '' fills '', Num 70, Lit ''% of the '',
        Num 60, Lit ''-min window for '', Num 6, Lit ''-'', Num 20,
        Lit '' participants.'']\<rparr>
     \<in> set (getRecommendations [createExercise]
        (createBlock\<lparr>window_minutes := 60, question_config := Some createQuestionConfig\<rparr>)
        createRoom 12 mixed)
   \<and> 0 \<le> time_range_max createExercise \<and> 0 \<le> requires_flipchart_count createExercise
   \<and> persons_per_question createQuestionConfig \<noteq> 0
   \<and> 0 \<le> seconds_per_question_prompt createQuestionConfig
   \<and> 0 \<le> expected_answers_per_question createQuestionConfig
   \<and> 0 \<le> seconds_per_answer createQuestionConfig
   \<and> scoreExercise createExercise
        (createBlock\<lparr>window_minutes := 60, question_config := Some createQuestionConfig\<rparr>)
        42.1 12 = 0.4 * (421 / 600) + 0.3 * (6 / 7) + 0.2 * 1 + 0.1 * 1
   \<and> \<bar>0.84 - scoreExercise createExercise
        (createBlock\<lparr>window_minutes := 60, question_config := Some createQuestionConfig\<rparr>)
        42.1 12\<bar> \<le> (1 / 200 :: real)"
  using getRecommendations_fit_score
    [of "\<lparr>exercise = createExercise, rec_estimated_minutes = 42.1, fit_score = 0.84,
     rec_reason = [Lit ''Test Exercise'', Lit '' fills '', Num 70, Lit ''% of the '',
        Num 60, Lit ''-min window for '', Num 6, Lit ''-'', Num 20,
        Lit '' participants.'']\<rparr>" "[createExercise]"
        "createBlock\<lparr>window_minutes := 60, question_config := Some createQuestionConfig\<rparr>"
        createRoom 12 mixed]
  by (simp add: getRecommendations_example)
    (simp add: createExercise_def createBlock_def createQuestionConfig_def
      spec_time_fit_def spec_participant_match_def spec_asset_match_def)

end
